theory Spec2Isabelle
  imports Main
begin

section \<open>Room booking backend: the bookings router\<close>

text \<open>
  A shallow embedding of the bookings router (\<^verbatim>\<open>src/unnamed/part_001\<close>, mounted at
  \<^verbatim>\<open>/bookings\<close> by \<^verbatim>\<open>src/server.js\<close>). Each route handler is a function from the
  environment (clock, server time zone, room registry, outcome of the database write), the
  state (stored bookings, stored files), the caller and the request to a response and the
  new state. Every \<^verbatim>\<open>return res.status(...)\<close> of the source is a value of \<open>failure\<close>.
\<close>

subsection \<open>Data model\<close>

datatype bstatus = Pending | Approved | Rejected | Cancelled | Completed

datatype role = User | Admin

record caller =
  user_id :: nat
  user_role :: role

text \<open>
  \<open>operatingHours\<close> of a room: two "HH:MM" strings. A missing or empty string (both falsy
  in JavaScript) is the empty string here.
\<close>

record hours =
  oh_start :: string
  oh_end :: string

record room =
  capacity :: int
  isActive :: bool
  operatingHours :: "hours option"

text \<open>Instants are milliseconds since the epoch, as \<^verbatim>\<open>Date.getTime()\<close> gives them.\<close>

record booking =
  bid :: nat
  userId :: nat
  roomId :: nat
  activityName :: string
  purpose :: string
  startTime :: int
  endTime :: int
  participantsCount :: int
  bnotes :: "string option"
  documentPath :: "string option"
  status :: bstatus
  adminNote :: string
  processedBy :: "nat option"

record state =
  bookings :: "booking list"
  files :: "string list"
  mails :: "(nat \<times> bstatus) list"

text \<open>
  What \<^verbatim>\<open>Booking.create\<close> and \<^verbatim>\<open>Booking.findByIdAndUpdate\<close> do with a write: accept it,
  reject it with a mongoose \<^verbatim>\<open>ValidationError\<close>, or fail otherwise.
\<close>

datatype db_outcome = DbOk | DbInvalid | DbDown

text \<open>
  \<open>tzOffset\<close> is the offset in milliseconds of the zone the server process runs in (a
  zone with one offset all year, as UTC and Jakarta time are):
  \<^verbatim>\<open>Date.prototype.toDateString\<close> prints the date in that zone. \<open>mailOk\<close> tells whether
  \<^verbatim>\<open>sendBookingNotification\<close> succeeds.
\<close>

record env =
  now :: int
  tzOffset :: int
  rooms :: "nat \<Rightarrow> room option"
  dbWrite :: db_outcome
  mailOk :: bool

subsection \<open>Request fields as JavaScript sees them\<close>

text \<open>
  \<open>participantsCount\<close> of a request body: missing, the empty string, a JSON number, or
  a non-empty string of decimal digits (given by its value). On the last two
  \<^verbatim>\<open>Number\<close> and \<^verbatim>\<open>parseInt\<close> agree as long as the value is an integer a double
  holds exactly and prints without an exponent (below \<open>2 ^ 53\<close> in size); larger values
  and other strings are outside this model.
\<close>

datatype count_field = Omitted | EmptyStr | NumV int | DecStr nat

fun truthy :: "count_field \<Rightarrow> bool" where
  "truthy Omitted = False"
| "truthy EmptyStr = False"
| "truthy (NumV n) = (n \<noteq> 0)"
| "truthy (DecStr k) = True"

text \<open>\<^verbatim>\<open>x > capacity\<close> converts \<open>x\<close> to a number; \<open>None\<close> is NaN.\<close>

fun toNumber :: "count_field \<Rightarrow> int option" where
  "toNumber Omitted = None"
| "toNumber EmptyStr = Some 0"
| "toNumber (NumV n) = Some n"
| "toNumber (DecStr k) = Some (int k)"

fun parseIntCount :: "count_field \<Rightarrow> int option" where
  "parseIntCount Omitted = None"
| "parseIntCount EmptyStr = None"
| "parseIntCount (NumV n) = Some n"
| "parseIntCount (DecStr k) = Some (int k)"

text \<open>
  A date field of a request body: missing (or empty), a string \<^verbatim>\<open>new Date\<close> cannot
  parse, or a string denoting an instant.
\<close>

datatype date_field = NoDate | BadDate | At int

text \<open>\<^verbatim>\<open>new Date(x).getTime()\<close>; \<open>None\<close> is NaN.\<close>

fun newDate :: "date_field \<Rightarrow> int option" where
  "newDate NoDate = None"
| "newDate BadDate = None"
| "newDate (At t) = Some t"

subsection \<open>Responses\<close>

text \<open>
  One constructor for each response the handlers send on failure. A conflict response
  carries activity name, start and end of the colliding booking (on create also the name
  of its user, which the user registry holds); a capacity response prints the requested
  count and the capacity; an operating-hours response prints the room's window.
\<close>

datatype failure =
    MissingFields
  | RoomNotFound
  | InvalidDate
  | EndNotAfterStart
  | StartInPast
  | Conflict string int int
  | CapacityExceeded count_field int
  | OutOfOperatingHours string string
  | BookingNotFound
  | Forbidden
  | NotPending
  | BookingTimePassed
  | AlreadyCancelledOrRejected
  | AlreadyStarted
  | NotDeletable
  | StatusRequired
  | StatusNotAllowed
  | OnlyApprovedCompletes
  | OnlyPendingDecided
  | ApprovalConflict string int int
  | ValidationFailed
  | ServerError

text \<open>The HTTP status code each response is sent with.\<close>

fun http_status :: "failure \<Rightarrow> nat" where
  "http_status RoomNotFound = 404"
| "http_status BookingNotFound = 404"
| "http_status Forbidden = 403"
| "http_status ServerError = 500"
| "http_status _ = 400"

datatype exn = TypeError | DbValidationError | DbError

subsection \<open>String helpers of the language\<close>

definition isWhiteSpace :: "char \<Rightarrow> bool" where
  "isWhiteSpace c =
     (c = CHR '' '' \<or> c = CHR 0x09 \<or> c = CHR 0x0A \<or> c = CHR 0x0B \<or> c = CHR 0x0C \<or> c = CHR 0x0D)"

text \<open>
  \<^verbatim>\<open>String.prototype.trim\<close> on ASCII white space; the Unicode white space it also
  strips (U+00A0 and others) is outside this model.
\<close>

definition trim :: "string \<Rightarrow> string" where
  "trim s = rev (dropWhile isWhiteSpace (rev (dropWhile isWhiteSpace s)))"

definition digitOf :: "nat \<Rightarrow> char \<Rightarrow> nat option" where
  "digitOf radix c =
     (let n = (of_char c :: nat);
          v = (if 48 \<le> n \<and> n \<le> 57 then Some (n - 48)
               else if 97 \<le> n \<and> n \<le> 122 then Some (n - 87)
               else if 65 \<le> n \<and> n \<le> 90 then Some (n - 55)
               else None)
      in case v of None \<Rightarrow> None | Some d \<Rightarrow> if d < radix then Some d else None)"

text \<open>The value of the longest prefix of digits; \<open>None\<close> when there is no digit.\<close>

fun digitsValue :: "nat \<Rightarrow> string \<Rightarrow> nat \<Rightarrow> bool \<Rightarrow> nat option" where
  "digitsValue radix [] acc seen = (if seen then Some acc else None)"
| "digitsValue radix (c # cs) acc seen =
     (case digitOf radix c of
        Some d \<Rightarrow> digitsValue radix cs (acc * radix + d) True
      | None \<Rightarrow> if seen then Some acc else None)"

text \<open>
  \<^verbatim>\<open>parseInt(str)\<close> with no radix: white space is skipped, a sign is read, a \<^verbatim>\<open>0x\<close>
  prefix selects radix 16, and the longest prefix of digits is the value; \<open>None\<close> is NaN.
\<close>

definition parseInt :: "string \<Rightarrow> int option" where
  "parseInt str =
     (let s1 = dropWhile isWhiteSpace str;
          neg = (case s1 of [] \<Rightarrow> False | c # _ \<Rightarrow> c = CHR ''-'');
          s2 = (case s1 of [] \<Rightarrow> s1
                | c # cs \<Rightarrow> if c = CHR ''-'' \<or> c = CHR ''+'' then cs else s1);
          hex = (case s2 of a # b # _ \<Rightarrow> a = CHR ''0'' \<and> (b = CHR ''x'' \<or> b = CHR ''X'')
                 | _ \<Rightarrow> False);
          mag = (if hex then digitsValue 16 (drop 2 s2) 0 False
                 else digitsValue 10 s2 0 False)
      in map_option (\<lambda>m. if neg then - int m else int m) mag)"

text \<open>\<^verbatim>\<open>s.split(':')[0]\<close>\<close>

definition splitColonFirst :: "string \<Rightarrow> string" where
  "splitColonFirst s = takeWhile (\<lambda>c. c \<noteq> CHR '':'') s"

subsection \<open>Dates\<close>

text \<open>
  \<^verbatim>\<open>toDateString()\<close> prints week day, month, day and year in the zone of the server
  process. Two of its results are equal exactly when the two instants fall on the same day
  of that zone, so the string is represented by the number of that day.
\<close>

definition toDateString :: "int \<Rightarrow> int \<Rightarrow> int" where
  "toDateString tz t = (t + tz) div 86400000"

definition getUTCHours :: "int \<Rightarrow> int" where
  "getUTCHours t = (t div 3600000) mod 24"

text \<open>Comparisons with a number that may be NaN are false on NaN.\<close>

definition js_lt :: "int \<Rightarrow> int option \<Rightarrow> bool" where
  "js_lt a b = (case b of None \<Rightarrow> False | Some v \<Rightarrow> a < v)"

definition js_gt :: "int \<Rightarrow> int option \<Rightarrow> bool" where
  "js_gt a b = (case b of None \<Rightarrow> False | Some v \<Rightarrow> a > v)"

subsection \<open>The booking store\<close>

text \<open>
  The operations of the mongoose library the handlers call on the \<^verbatim>\<open>Booking\<close> model, on
  a list of bookings in creation order: \<^verbatim>\<open>findById\<close> returns the booking with the id,
  \<^verbatim>\<open>create\<close> gives the new booking an id no stored booking has, \<^verbatim>\<open>save\<close> and
  \<^verbatim>\<open>findByIdAndUpdate\<close> replace the booking with the id, \<^verbatim>\<open>findByIdAndDelete\<close> removes
  it.
\<close>

definition findById :: "booking list \<Rightarrow> nat \<Rightarrow> booking option" where
  "findById bs i = find (\<lambda>b. bid b = i) bs"

definition newId :: "booking list \<Rightarrow> nat" where
  "newId bs = Suc (foldr (\<lambda>b m. max (bid b) m) bs 0)"

definition saveBooking :: "booking \<Rightarrow> booking list \<Rightarrow> booking list" where
  "saveBooking b bs = map (\<lambda>x. if bid x = bid b then b else x) bs"

definition findByIdAndDelete :: "nat \<Rightarrow> booking list \<Rightarrow> booking list" where
  "findByIdAndDelete i bs = filter (\<lambda>b. bid b \<noteq> i) bs"

subsection \<open>Code of the repository that is not among the source files\<close>

text \<open>
  Modelled from the spec: the query of \<^verbatim>\<open>Booking.checkConflict\<close> (models/Booking), which
  is not among the source files. Section 4.2: a booking conflicts when it is of "the given
  room", its "status is not cancelled or rejected", it is not "the booking being updated
  (if any)", and the intervals overlap:
  \<^verbatim>\<open>existing.start < end AND existing.end > start\<close>.
\<close>

definition conflictsWith :: "nat \<Rightarrow> int \<Rightarrow> int \<Rightarrow> nat option \<Rightarrow> booking \<Rightarrow> bool" where
  "conflictsWith rid s e excl b =
     (roomId b = rid \<and> status b \<noteq> Cancelled \<and> status b \<noteq> Rejected \<and>
      excl \<noteq> Some (bid b) \<and> startTime b < e \<and> endTime b > s)"

text \<open>
  Modelled from the spec: \<^verbatim>\<open>Booking.checkConflict\<close> (models/Booking), which is not among
  the source files; only its three call sites are. Section 4.2:
  \<^verbatim>\<open>hasConflict(roomId, start, end, excludeBookingId?) -> Booking | null\<close> "returns the
  first conflicting booking (if any)".
\<close>

definition checkConflict :: "booking list \<Rightarrow> nat \<Rightarrow> int \<Rightarrow> int \<Rightarrow> nat option \<Rightarrow> booking option" where
  "checkConflict bs rid s e excl = find (conflictsWith rid s e excl) bs"

text \<open>
  Modelled from the spec: \<^verbatim>\<open>booking.updateStatus\<close> (models/Booking), which is not among
  the source files. Section 4.3: "a successful transition sets the new status and records
  the acting user id and optional note as the latest audit annotation".
\<close>

definition updateStatus :: "booking \<Rightarrow> bstatus \<Rightarrow> string \<Rightarrow> nat \<Rightarrow> booking" where
  "updateStatus b s note actor = b\<lparr>status := s, adminNote := note, processedBy := Some actor\<rparr>"

text \<open>
  Modelled from the spec: \<^verbatim>\<open>uploadDocument\<close> (middleware/upload), which is not among the
  source files. Section 1: document storage is "a service that persists a binary payload
  and returns a storage path". The middleware runs before the handler, so the request's
  file is stored when the handler starts.
\<close>

definition uploadDocument :: "string option \<Rightarrow> state \<Rightarrow> state" where
  "uploadDocument f st = (case f of None \<Rightarrow> st | Some p \<Rightarrow> st\<lparr>files := p # files st\<rparr>)"

text \<open>
  Modelled from the spec: \<^verbatim>\<open>deleteFile\<close> (middleware/upload), which is not among the
  source files. Section 4.3: deletion is "removal of any attached document"; the file at
  the path is removed from storage.
\<close>

definition deleteFile :: "string \<Rightarrow> state \<Rightarrow> state" where
  "deleteFile p st = st\<lparr>files := removeAll p (files st)\<rparr>"

text \<open>
  Modelled from the spec: \<^verbatim>\<open>authorize\<close> (middleware/auth), which is not among the source
  files. Section 7: Forbidden when the "caller lacks ownership/role".
\<close>

definition authorize :: "role \<Rightarrow> caller \<Rightarrow> bool" where
  "authorize r u = (user_role u = r)"

subsection \<open>Operating hours\<close>

text \<open>
  The block of lines 111-128 (create) and 421-438 (update): the same code in both
  handlers, on the parsed start and end.
\<close>

definition roomStartHour :: "room \<Rightarrow> int option" where
  "roomStartHour r =
     (case operatingHours r of None \<Rightarrow> Some 8
      | Some h \<Rightarrow> if oh_start h = [] then Some 8 else parseInt (splitColonFirst (oh_start h)))"

definition roomEndHour :: "room \<Rightarrow> int option" where
  "roomEndHour r =
     (case operatingHours r of None \<Rightarrow> Some 17
      | Some h \<Rightarrow> if oh_end h = [] then Some 17 else parseInt (splitColonFirst (oh_end h)))"

definition startTimeStr :: "room \<Rightarrow> string" where
  "startTimeStr r =
     (case operatingHours r of None \<Rightarrow> ''08:00''
      | Some h \<Rightarrow> if oh_start h = [] then ''08:00'' else oh_start h)"

definition endTimeStr :: "room \<Rightarrow> string" where
  "endTimeStr r =
     (case operatingHours r of None \<Rightarrow> ''17:00''
      | Some h \<Rightarrow> if oh_end h = [] then ''17:00'' else oh_end h)"

definition operatingHoursCheck :: "int \<Rightarrow> room \<Rightarrow> int \<Rightarrow> int \<Rightarrow> failure option" where
  "operatingHoursCheck tz r s e =
     (let isMultiDay = (toDateString tz s \<noteq> toDateString tz e) in
      if isMultiDay then None
      else
        (let startHour = (getUTCHours s + 7) mod 24;
             endHour = (getUTCHours e + 7) mod 24
         in if js_lt startHour (roomStartHour r) \<or> js_gt endHour (roomEndHour r)
            then Some (OutOfOperatingHours (startTimeStr r) (endTimeStr r))
            else None))"

subsection \<open>POST /bookings\<close>

record create_req =
  c_roomId :: "nat option"
  c_activityName :: string
  c_purpose :: "string option"
  c_startTime :: date_field
  c_endTime :: date_field
  c_participantsCount :: count_field
  c_notes :: "string option"
  c_file :: "string option"

text \<open>The catch block of the create handler (lines 178-200).\<close>

definition create_catch :: "state \<Rightarrow> create_req \<Rightarrow> exn \<Rightarrow> (failure + booking) \<times> state" where
  "create_catch st rq x =
     (let st' = (case c_file rq of None \<Rightarrow> st | Some p \<Rightarrow> deleteFile p st)
      in if x = DbValidationError then (Inl ValidationFailed, st') else (Inl ServerError, st'))"

definition exceedsCapacity :: "count_field \<Rightarrow> int \<Rightarrow> bool" where
  "exceedsCapacity pc cap = (truthy pc \<and> js_lt cap (toNumber pc))"

text \<open>
  The handler of lines 25-201. \<open>purpose.trim()\<close> throws a TypeError when the body has no
  purpose; the thrown error and a failed \<^verbatim>\<open>Booking.create\<close> reach the catch block.
  The contact person and the equipment list of the body are parsed inside their own
  \<^verbatim>\<open>try\<close> blocks and decide no branch; they are left out of the booking record.
\<close>

definition post_booking :: "env \<Rightarrow> state \<Rightarrow> caller \<Rightarrow> create_req \<Rightarrow> (failure + booking) \<times> state" where
  "post_booking ev st u rq =
     (case c_roomId rq of
        None \<Rightarrow> (Inl MissingFields, st)
      | Some rid \<Rightarrow>
     if c_activityName rq = [] \<or> c_startTime rq = NoDate \<or> c_endTime rq = NoDate
     then (Inl MissingFields, st)
     else
     (case rooms ev rid of
        None \<Rightarrow> (Inl RoomNotFound, st)
      | Some room \<Rightarrow>
     if \<not> isActive room then (Inl RoomNotFound, st)
     else
     (case newDate (c_startTime rq) of
        None \<Rightarrow> (Inl InvalidDate, st)
      | Some s \<Rightarrow>
     (case newDate (c_endTime rq) of
        None \<Rightarrow> (Inl InvalidDate, st)
      | Some e \<Rightarrow>
     if e \<le> s then (Inl EndNotAfterStart, st)
     else if s < now ev then (Inl StartInPast, st)
     else
     (case checkConflict (bookings st) rid s e None of
        Some c \<Rightarrow> (Inl (Conflict (activityName c) (startTime c) (endTime c)), st)
      | None \<Rightarrow>
     if exceedsCapacity (c_participantsCount rq) (capacity room)
     then (Inl (CapacityExceeded (c_participantsCount rq) (capacity room)), st)
     else
     (case operatingHoursCheck (tzOffset ev) room s e of
        Some f \<Rightarrow> (Inl f, st)
      | None \<Rightarrow>
     (case c_purpose rq of
        None \<Rightarrow> create_catch st rq TypeError
      | Some p \<Rightarrow>
     (case (if truthy (c_participantsCount rq) then parseIntCount (c_participantsCount rq)
            else Some 1) of
        None \<Rightarrow> create_catch st rq DbValidationError
      | Some n \<Rightarrow>
     (case dbWrite ev of
        DbInvalid \<Rightarrow> create_catch st rq DbValidationError
      | DbDown \<Rightarrow> create_catch st rq DbError
      | DbOk \<Rightarrow>
          (let b = \<lparr> bid = newId (bookings st), userId = user_id u, roomId = rid,
                     activityName = trim (c_activityName rq), purpose = trim p,
                     startTime = s, endTime = e, participantsCount = n,
                     bnotes = (case c_notes rq of None \<Rightarrow> None
                               | Some t \<Rightarrow> if t = [] then None else Some (trim t)),
                     documentPath = c_file rq, status = Pending, adminNote = [],
                     processedBy = None \<rparr>
           in (Inr b, st\<lparr>bookings := bookings st @ [b]\<rparr>)))))))))))"

text \<open>The route: the upload middleware, then the handler.\<close>

definition route_post :: "env \<Rightarrow> state \<Rightarrow> caller \<Rightarrow> create_req \<Rightarrow> (failure + booking) \<times> state" where
  "route_post ev st u rq = post_booking ev (uploadDocument (c_file rq) st) u rq"

subsection \<open>PUT /bookings/:id\<close>

text \<open>
  \<open>u_activityName\<close> is empty when the body has none; \<open>u_notes\<close> is \<open>None\<close> when the body has
  no notes (\<^verbatim>\<open>notes !== undefined\<close> fails).
\<close>

record update_req =
  u_activityName :: string
  u_startTime :: date_field
  u_endTime :: date_field
  u_participantsCount :: count_field
  u_notes :: "string option"
  u_file :: "string option"

text \<open>The catch block of the update handler (lines 500-529).\<close>

definition update_catch :: "state \<Rightarrow> update_req \<Rightarrow> exn \<Rightarrow> (failure + booking) \<times> state" where
  "update_catch st rq x =
     (let st' = (case u_file rq of None \<Rightarrow> st | Some p \<Rightarrow> deleteFile p st)
      in if x = DbValidationError then (Inl ValidationFailed, st') else (Inl ServerError, st'))"

text \<open>
  \<open>updateData\<close> applied to the stored booking: each field the handler has set replaces
  the stored one. \<open>ival\<close> is the new interval when the body gives a start or an end.
\<close>

definition applyUpdate :: "update_req \<Rightarrow> int option \<Rightarrow> (int \<times> int) option \<Rightarrow> booking \<Rightarrow> booking" where
  "applyUpdate rq cnt ival b =
     b\<lparr> activityName := (if u_activityName rq \<noteq> [] then trim (u_activityName rq)
                          else activityName b),
        participantsCount := (case cnt of None \<Rightarrow> participantsCount b | Some n \<Rightarrow> n),
        bnotes := (case u_notes rq of None \<Rightarrow> bnotes b
                   | Some t \<Rightarrow> if t = [] then None else Some (trim t)),
        documentPath := (case u_file rq of None \<Rightarrow> documentPath b | Some p \<Rightarrow> Some p),
        startTime := (case ival of None \<Rightarrow> startTime b | Some (s, e) \<Rightarrow> s),
        endTime := (case ival of None \<Rightarrow> endTime b | Some (s, e) \<Rightarrow> e) \<rparr>"

text \<open>
  Lines 464-498: \<^verbatim>\<open>Booking.findByIdAndUpdate\<close> with the data built so far. No test of
  the participant count against the room's capacity stands between line 380, which puts
  \<^verbatim>\<open>parseInt(participantsCount)\<close> into \<open>updateData\<close>, and this write.
\<close>

definition update_commit :: "env \<Rightarrow> state \<Rightarrow> update_req \<Rightarrow> booking \<Rightarrow> (int \<times> int) option \<Rightarrow> (failure + booking) \<times> state" where
  "update_commit ev st rq b ival =
     (case (if truthy (u_participantsCount rq)
            then map_option Some (parseIntCount (u_participantsCount rq))
            else Some None) of
        None \<Rightarrow> update_catch st rq DbValidationError
      | Some cnt \<Rightarrow>
     (case dbWrite ev of
        DbInvalid \<Rightarrow> update_catch st rq DbValidationError
      | DbDown \<Rightarrow> update_catch st rq DbError
      | DbOk \<Rightarrow>
          (let b' = applyUpdate rq cnt ival b
           in (Inr b', st\<lparr>bookings := saveBooking b' (bookings st)\<rparr>))))"

text \<open>
  The handler of lines 321-530. The old document is deleted (lines 384-392) before the
  new interval is validated.
\<close>

definition put_booking :: "env \<Rightarrow> state \<Rightarrow> caller \<Rightarrow> nat \<Rightarrow> update_req \<Rightarrow> (failure + booking) \<times> state" where
  "put_booking ev st u i rq =
     (case findById (bookings st) i of
        None \<Rightarrow> (Inl BookingNotFound, st)
      | Some b \<Rightarrow>
     if userId b \<noteq> user_id u then (Inl Forbidden, st)
     else if status b \<noteq> Pending then (Inl NotPending, st)
     else if startTime b < now ev then (Inl BookingTimePassed, st)
     else
     (case rooms ev (roomId b) of
        None \<Rightarrow> (Inl RoomNotFound, st)
      | Some room \<Rightarrow>
     if \<not> isActive room then (Inl RoomNotFound, st)
     else
     (let st1 = (case u_file rq of None \<Rightarrow> st
                 | Some p \<Rightarrow> (case documentPath b of None \<Rightarrow> st | Some old \<Rightarrow> deleteFile old st))
      in
     if u_startTime rq \<noteq> NoDate \<or> u_endTime rq \<noteq> NoDate then
     (case (if u_startTime rq \<noteq> NoDate then newDate (u_startTime rq) else Some (startTime b)) of
        None \<Rightarrow> (Inl InvalidDate, st1)
      | Some s \<Rightarrow>
     (case (if u_endTime rq \<noteq> NoDate then newDate (u_endTime rq) else Some (endTime b)) of
        None \<Rightarrow> (Inl InvalidDate, st1)
      | Some e \<Rightarrow>
     if e \<le> s then (Inl EndNotAfterStart, st1)
     else if s < now ev then (Inl StartInPast, st1)
     else
     (case operatingHoursCheck (tzOffset ev) room s e of
        Some f \<Rightarrow> (Inl f, st1)
      | None \<Rightarrow>
     (case checkConflict (bookings st1) (roomId b) s e (Some (bid b)) of
        Some c \<Rightarrow> (Inl (Conflict (activityName c) (startTime c) (endTime c)), st1)
      | None \<Rightarrow> update_commit ev st1 rq b (Some (s, e))))))
     else update_commit ev st1 rq b None)))"

definition route_put :: "env \<Rightarrow> state \<Rightarrow> caller \<Rightarrow> nat \<Rightarrow> update_req \<Rightarrow> (failure + booking) \<times> state" where
  "route_put ev st u i rq = put_booking ev (uploadDocument (u_file rq) st) u i rq"

subsection \<open>PATCH /bookings/:id/cancel\<close>

text \<open>The handler of lines 535-586; a failed save reaches its catch block.\<close>

definition patch_cancel :: "env \<Rightarrow> state \<Rightarrow> caller \<Rightarrow> nat \<Rightarrow> (failure + booking) \<times> state" where
  "patch_cancel ev st u i =
     (case findById (bookings st) i of
        None \<Rightarrow> (Inl BookingNotFound, st)
      | Some b \<Rightarrow>
     if userId b \<noteq> user_id u then (Inl Forbidden, st)
     else if status b = Cancelled \<or> status b = Rejected then (Inl AlreadyCancelledOrRejected, st)
     else if startTime b < now ev then (Inl AlreadyStarted, st)
     else
     (case dbWrite ev of
        DbOk \<Rightarrow>
          (let b' = updateStatus b Cancelled ''Dibatalkan oleh user'' (user_id u)
           in (Inr b', st\<lparr>bookings := saveBooking b' (bookings st)\<rparr>))
      | _ \<Rightarrow> (Inl ServerError, st)))"

subsection \<open>DELETE /bookings/:id and DELETE /bookings/admin/:id\<close>

text \<open>
  The owner's handler, lines 591-640. The file is deleted before the record; a failed
  \<^verbatim>\<open>findByIdAndDelete\<close> reaches the catch block after the file is gone.
\<close>

definition delete_booking :: "env \<Rightarrow> state \<Rightarrow> caller \<Rightarrow> nat \<Rightarrow> (failure + unit) \<times> state" where
  "delete_booking ev st u i =
     (case findById (bookings st) i of
        None \<Rightarrow> (Inl BookingNotFound, st)
      | Some b \<Rightarrow>
     if userId b \<noteq> user_id u then (Inl Forbidden, st)
     else if status b \<notin> set [Cancelled, Rejected, Completed] then (Inl NotDeletable, st)
     else
     (let st1 = (case documentPath b of None \<Rightarrow> st | Some p \<Rightarrow> deleteFile p st)
      in case dbWrite ev of
           DbOk \<Rightarrow> (Inr (), st1\<lparr>bookings := findByIdAndDelete i (bookings st1)\<rparr>)
         | _ \<Rightarrow> (Inl ServerError, st1)))"

text \<open>The admin's handler, lines 1015-1048 ("can delete any booking").\<close>

definition admin_delete_booking :: "env \<Rightarrow> state \<Rightarrow> nat \<Rightarrow> (failure + unit) \<times> state" where
  "admin_delete_booking ev st i =
     (case findById (bookings st) i of
        None \<Rightarrow> (Inl BookingNotFound, st)
      | Some b \<Rightarrow>
     (let st1 = (case documentPath b of None \<Rightarrow> st | Some p \<Rightarrow> deleteFile p st)
      in case dbWrite ev of
           DbOk \<Rightarrow> (Inr (), st1\<lparr>bookings := findByIdAndDelete i (bookings st1)\<rparr>)
         | _ \<Rightarrow> (Inl ServerError, st1)))"

definition route_admin_delete :: "env \<Rightarrow> state \<Rightarrow> caller \<Rightarrow> nat \<Rightarrow> (failure + unit) \<times> state" where
  "route_admin_delete ev st u i =
     (if authorize Admin u then admin_delete_booking ev st i else (Inl Forbidden, st))"

subsection \<open>PATCH /bookings/:id/status\<close>

text \<open>
  \<open>s_status\<close> is \<open>None\<close> when the body has no status. A string that names no status is
  refused by the same test as \<^verbatim>\<open>pending\<close> and \<^verbatim>\<open>cancelled\<close> are (line 762), so the
  field ranges over the five statuses. \<open>s_adminNote\<close> is \<^verbatim>\<open>adminNote || ''\<close>.
\<close>

record status_req =
  s_status :: "bstatus option"
  s_adminNote :: string

text \<open>
  The handler of lines 751-866. A notification that cannot be sent is logged and the
  request still succeeds.
\<close>

definition patch_status :: "env \<Rightarrow> state \<Rightarrow> caller \<Rightarrow> nat \<Rightarrow> status_req \<Rightarrow> (failure + booking) \<times> state" where
  "patch_status ev st u i rq =
     (case s_status rq of
        None \<Rightarrow> (Inl StatusRequired, st)
      | Some target \<Rightarrow>
     if target \<notin> set [Approved, Rejected, Completed] then (Inl StatusNotAllowed, st)
     else
     (case findById (bookings st) i of
        None \<Rightarrow> (Inl BookingNotFound, st)
      | Some b \<Rightarrow>
     if target = Completed \<and> status b \<noteq> Approved then (Inl OnlyApprovedCompletes, st)
     else if (target = Approved \<or> target = Rejected) \<and> status b \<noteq> Pending
     then (Inl OnlyPendingDecided, st)
     else
     (case (if target = Approved
            then checkConflict (bookings st) (roomId b) (startTime b) (endTime b) (Some (bid b))
            else None) of
        Some c \<Rightarrow> (Inl (ApprovalConflict (activityName c) (startTime c) (endTime c)), st)
      | None \<Rightarrow>
     (case dbWrite ev of
        DbOk \<Rightarrow>
          (let b' = updateStatus b target (s_adminNote rq) (user_id u);
               st1 = st\<lparr>bookings := saveBooking b' (bookings st)\<rparr>;
               st2 = (if mailOk ev then st1\<lparr>mails := (bid b', target) # mails st1\<rparr> else st1)
           in (Inr b', st2))
      | _ \<Rightarrow> (Inl ServerError, st)))))"

definition route_patch_status :: "env \<Rightarrow> state \<Rightarrow> caller \<Rightarrow> nat \<Rightarrow> status_req \<Rightarrow> (failure + booking) \<times> state" where
  "route_patch_status ev st u i rq =
     (if authorize Admin u then patch_status ev st u i rq else (Inl Forbidden, st))"

subsection \<open>Scenario data\<close>

text \<open>The instant of day \<open>d\<close> after the epoch at \<open>h:m\<close> UTC, in milliseconds.\<close>

definition at_utc :: "int \<Rightarrow> int \<Rightarrow> int \<Rightarrow> int" where
  "at_utc d h m = d * 86400000 + h * 3600000 + m * 60000"

text \<open>Jakarta time, UTC+7, as an offset in milliseconds.\<close>

definition wib :: int where
  "wib = 25200000"

definition room10 :: room where
  "room10 = \<lparr> capacity = 10, isActive = True,
              operatingHours = Some \<lparr> oh_start = ''08:00'', oh_end = ''17:00'' \<rparr> \<rparr>"

definition registry :: "nat \<Rightarrow> room option" where
  "registry i = (if i = 1 then Some room10 else None)"

text \<open>A server whose process runs in UTC, and one whose process runs in Jakarta time.\<close>

definition env_utc :: env where
  "env_utc = \<lparr> now = 0, tzOffset = 0, rooms = registry, dbWrite = DbOk, mailOk = True \<rparr>"

definition env_wib :: env where
  "env_wib = \<lparr> now = 0, tzOffset = wib, rooms = registry, dbWrite = DbOk, mailOk = True \<rparr>"

definition alice :: caller where
  "alice = \<lparr> user_id = 7, user_role = User \<rparr>"

definition boss :: caller where
  "boss = \<lparr> user_id = 1, user_role = Admin \<rparr>"

text \<open>
  Booking X: room 1, day 1, 02:00-04:00 UTC (09:00-11:00 in Jakarta), with a document.
  Booking Y: room 1, day 1, 03:00-05:00 UTC, overlapping X.
\<close>

definition bookingX :: "bstatus \<Rightarrow> booking" where
  "bookingX s = \<lparr> bid = 1, userId = 7, roomId = 1, activityName = ''Rapat'', purpose = ''Koordinasi'',
                  startTime = at_utc 1 2 0, endTime = at_utc 1 4 0, participantsCount = 5,
                  bnotes = None, documentPath = Some ''uploads/documents/x.pdf'', status = s,
                  adminNote = [], processedBy = None \<rparr>"

definition bookingY :: "bstatus \<Rightarrow> booking" where
  "bookingY s = \<lparr> bid = 2, userId = 8, roomId = 1, activityName = ''Seminar'', purpose = ''Kuliah umum'',
                  startTime = at_utc 1 3 0, endTime = at_utc 1 5 0, participantsCount = 8,
                  bnotes = None, documentPath = None, status = s,
                  adminNote = [], processedBy = None \<rparr>"

definition store :: "booking list \<Rightarrow> state" where
  "store bs = \<lparr> bookings = bs, files = [''uploads/documents/x.pdf''], mails = [] \<rparr>"

text \<open>A create request for room 1 from \<open>s\<close> to \<open>e\<close> with the given participant count and file.\<close>

definition request :: "int \<Rightarrow> int \<Rightarrow> count_field \<Rightarrow> string option \<Rightarrow> create_req" where
  "request s e pc f = \<lparr> c_roomId = Some 1, c_activityName = ''Workshop'', c_purpose = Some ''Pelatihan'',
                        c_startTime = At s, c_endTime = At e, c_participantsCount = pc,
                        c_notes = None, c_file = f \<rparr>"

text \<open>An update request that changes nothing but the participant count.\<close>

definition count_update :: "count_field \<Rightarrow> update_req" where
  "count_update pc = \<lparr> u_activityName = [], u_startTime = NoDate, u_endTime = NoDate,
                        u_participantsCount = pc, u_notes = None, u_file = None \<rparr>"

subsection \<open>The conflict detector\<close>

lemma checkConflict_None_iff:
  "checkConflict bs rid s e excl = None \<longleftrightarrow> (\<forall>b \<in> set bs. \<not> conflictsWith rid s e excl b)"
  by (auto simp: checkConflict_def find_None_iff)

lemma checkConflict_Some_conflicts:
  "checkConflict bs rid s e excl = Some c \<Longrightarrow> c \<in> set bs \<and> conflictsWith rid s e excl c"
  by (auto simp: checkConflict_def find_Some_iff)

text \<open>
  C1. The conflict detector reports a conflict exactly when some stored booking of the
  room, neither cancelled nor rejected and not the excluded one, starts before the end and
  ends after the start of the interval. An interval that starts exactly where a booking
  ends, or ends exactly where it starts, does not conflict with it; an interval that
  overlaps a live booking by one unit conflicts with it.
\<close>

theorem checkConflict_overlap_iff:
  "(checkConflict bs rid s e excl \<noteq> None \<longleftrightarrow>
      (\<exists>b. b \<in> set bs \<and> roomId b = rid \<and> status b \<noteq> Cancelled \<and> status b \<noteq> Rejected \<and>
           excl \<noteq> Some (bid b) \<and> startTime b < e \<and> endTime b > s)) \<and>
   checkConflict [b0] (roomId b0) (endTime b0) e' excl = None \<and>
   checkConflict [b0] (roomId b0) s' (startTime b0) excl = None \<and>
   (status b0 \<noteq> Cancelled \<and> status b0 \<noteq> Rejected \<and> excl \<noteq> Some (bid b0) \<and>
    startTime b0 < endTime b0 \<and> endTime b0 \<le> e' \<longrightarrow>
      checkConflict [b0] (roomId b0) (endTime b0 - 1) e' excl = Some b0) \<and>
   (status b0 \<noteq> Cancelled \<and> status b0 \<noteq> Rejected \<and> excl \<noteq> Some (bid b0) \<and>
    startTime b0 < endTime b0 \<and> s' \<le> startTime b0 \<longrightarrow>
      checkConflict [b0] (roomId b0) s' (startTime b0 + 1) excl = Some b0)"
proof (intro conjI impI)
  show "checkConflict bs rid s e excl \<noteq> None \<longleftrightarrow>
      (\<exists>b. b \<in> set bs \<and> roomId b = rid \<and> status b \<noteq> Cancelled \<and> status b \<noteq> Rejected \<and>
           excl \<noteq> Some (bid b) \<and> startTime b < e \<and> endTime b > s)"
    using checkConflict_None_iff [of bs rid s e excl]
    by (auto simp: conflictsWith_def)
next
  show "checkConflict [b0] (roomId b0) (endTime b0) e' excl = None"
    by (simp add: checkConflict_def conflictsWith_def)
next
  show "checkConflict [b0] (roomId b0) s' (startTime b0) excl = None"
    by (simp add: checkConflict_def conflictsWith_def)
next
  assume "status b0 \<noteq> Cancelled \<and> status b0 \<noteq> Rejected \<and> excl \<noteq> Some (bid b0) \<and>
    startTime b0 < endTime b0 \<and> endTime b0 \<le> e'"
  then show "checkConflict [b0] (roomId b0) (endTime b0 - 1) e' excl = Some b0"
    by (simp add: checkConflict_def conflictsWith_def)
next
  assume "status b0 \<noteq> Cancelled \<and> status b0 \<noteq> Rejected \<and> excl \<noteq> Some (bid b0) \<and>
    startTime b0 < endTime b0 \<and> s' \<le> startTime b0"
  then show "checkConflict [b0] (roomId b0) s' (startTime b0 + 1) excl = Some b0"
    by (simp add: checkConflict_def conflictsWith_def)
qed

theorem checkConflict_overlap_witness:
  "checkConflict [bookingX Approved] 1 (at_utc 1 4 0) (at_utc 1 6 0) None = None \<and>
   checkConflict [bookingX Approved] 1 (at_utc 1 0 0) (at_utc 1 2 0) None = None \<and>
   checkConflict [bookingX Approved] 1 (at_utc 1 4 0 - 1) (at_utc 1 6 0) None = Some (bookingX Approved) \<and>
   checkConflict [bookingX Approved] 1 (at_utc 1 0 0) (at_utc 1 2 0 + 1) None = Some (bookingX Approved) \<and>
   checkConflict [bookingX Approved, bookingY Pending] 1 (at_utc 1 4 0) (at_utc 1 6 0) None \<noteq> None"
proof -
  note T = checkConflict_overlap_iff [where bs = "[bookingX Approved, bookingY Pending]" and rid = 1
      and s = "at_utc 1 4 0" and e = "at_utc 1 6 0" and excl = None
      and ?b0.0 = "bookingX Approved" and e' = "at_utc 1 6 0" and s' = "at_utc 1 0 0"]
  have "\<exists>b. b \<in> set [bookingX Approved, bookingY Pending] \<and> roomId b = 1 \<and>
          status b \<noteq> Cancelled \<and> status b \<noteq> Rejected \<and> None \<noteq> Some (bid b) \<and>
          startTime b < at_utc 1 6 0 \<and> endTime b > at_utc 1 4 0"
    by (rule exI [of _ "bookingY Pending"]) (simp add: bookingY_def at_utc_def)
  with T [THEN conjunct1]
  have 1: "checkConflict [bookingX Approved, bookingY Pending] 1 (at_utc 1 4 0) (at_utc 1 6 0) None \<noteq> None"
    by blast
  have 2: "checkConflict [bookingX Approved] 1 (at_utc 1 4 0) (at_utc 1 6 0) None = None"
    using T [THEN conjunct2, THEN conjunct1] by (simp add: bookingX_def)
  have 3: "checkConflict [bookingX Approved] 1 (at_utc 1 0 0) (at_utc 1 2 0) None = None"
    using T [THEN conjunct2, THEN conjunct2, THEN conjunct1] by (simp add: bookingX_def)
  have 4: "checkConflict [bookingX Approved] 1 (at_utc 1 4 0 - 1) (at_utc 1 6 0) None = Some (bookingX Approved)"
    using T [THEN conjunct2, THEN conjunct2, THEN conjunct2, THEN conjunct1]
    by (simp add: bookingX_def at_utc_def)
  have 5: "checkConflict [bookingX Approved] 1 (at_utc 1 0 0) (at_utc 1 2 0 + 1) None = Some (bookingX Approved)"
    using T [THEN conjunct2, THEN conjunct2, THEN conjunct2, THEN conjunct2]
    by (simp add: bookingX_def at_utc_def)
  from 1 2 3 4 5 show ?thesis by blast
qed

subsection \<open>Creating a booking\<close>

lemma post_booking_Inr:
  assumes "post_booking ev st u rq = (Inr b, st')"
  shows "Some (participantsCount b) =
           (if truthy (c_participantsCount rq) then parseIntCount (c_participantsCount rq)
            else Some 1) \<and>
         status b = Pending \<and> st' = st\<lparr>bookings := bookings st @ [b]\<rparr>"
  using assms
  by (auto simp: post_booking_def create_catch_def Let_def
      split: option.splits if_splits db_outcome.splits)

text \<open>
  C10. A create request whose participantsCount is omitted or empty, when it succeeds,
  stores a booking whose participantsCount is 1.
\<close>

theorem create_default_participants:
  assumes "route_post ev st u rq = (Inr b, st')"
    and "c_participantsCount rq = Omitted \<or> c_participantsCount rq = EmptyStr"
  shows "participantsCount b = 1 \<and> b \<in> set (bookings st')"
  using assms post_booking_Inr [of ev "uploadDocument (c_file rq) st" u rq b st']
  by (auto simp: route_post_def)

lemmas scenario_defs =
  request_def env_utc_def env_wib_def wib_def store_def registry_def room10_def at_utc_def
  alice_def boss_def bookingX_def bookingY_def count_update_def

lemmas hours_defs =
  operatingHoursCheck_def toDateString_def getUTCHours_def js_lt_def js_gt_def
  roomStartHour_def roomEndHour_def startTimeStr_def endTimeStr_def parseInt_def
  splitColonFirst_def isWhiteSpace_def digitOf_def

theorem create_default_participants_witness:
  "\<exists>b st'. route_post env_utc (store []) alice
              (request (at_utc 1 3 0) (at_utc 1 5 0) Omitted None) = (Inr b, st') \<and>
     participantsCount b = 1 \<and> b \<in> set (bookings st')"
proof -
  obtain b st' where r: "route_post env_utc (store []) alice
      (request (at_utc 1 3 0) (at_utc 1 5 0) Omitted None) = (Inr b, st')"
    by (simp add: route_post_def post_booking_def uploadDocument_def checkConflict_def
        exceedsCapacity_def Let_def scenario_defs hours_defs)
  have "c_participantsCount (request (at_utc 1 3 0) (at_utc 1 5 0) Omitted None) = Omitted"
    by (simp add: request_def)
  with create_default_participants [OF r] r show ?thesis by blast
qed

text \<open>
  C4, as the code has it. The create handler checks, in this order and answering with the
  first failure: the required fields, the room, the date format, end after start, start
  not in the past, the conflict detector, the capacity, the operating hours. So the
  capacity and operating-hours checks run after the conflict detector: a request that
  passes the first five checks and overlaps a live booking is answered with Conflict,
  whatever its participant count and hours; capacity is reported only when nothing
  conflicts, and operating hours only when capacity holds too. No failure changes the
  state.
\<close>

theorem create_check_order:
  "(c_roomId rq = None \<or> c_activityName rq = [] \<or> c_startTime rq = NoDate \<or> c_endTime rq = NoDate \<longrightarrow>
      post_booking ev st u rq = (Inl MissingFields, st)) \<and>
   (c_roomId rq = Some rid \<and> c_activityName rq \<noteq> [] \<and> c_startTime rq \<noteq> NoDate \<and>
    c_endTime rq \<noteq> NoDate \<longrightarrow>
      (rooms ev rid = None \<or> rooms ev rid = Some room \<and> \<not> isActive room \<longrightarrow>
         post_booking ev st u rq = (Inl RoomNotFound, st)) \<and>
      (rooms ev rid = Some room \<and> isActive room \<longrightarrow>
         (c_startTime rq = BadDate \<or> c_endTime rq = BadDate \<longrightarrow>
            post_booking ev st u rq = (Inl InvalidDate, st)) \<and>
         (c_startTime rq = At s \<and> c_endTime rq = At e \<longrightarrow>
            (e \<le> s \<longrightarrow> post_booking ev st u rq = (Inl EndNotAfterStart, st)) \<and>
            (s < e \<and> s < now ev \<longrightarrow> post_booking ev st u rq = (Inl StartInPast, st)) \<and>
            (s < e \<and> now ev \<le> s \<and> checkConflict (bookings st) rid s e None = Some c \<longrightarrow>
               post_booking ev st u rq =
                 (Inl (Conflict (activityName c) (startTime c) (endTime c)), st)) \<and>
            (s < e \<and> now ev \<le> s \<and> checkConflict (bookings st) rid s e None = None \<and>
             exceedsCapacity (c_participantsCount rq) (capacity room) \<longrightarrow>
               post_booking ev st u rq =
                 (Inl (CapacityExceeded (c_participantsCount rq) (capacity room)), st)) \<and>
            (s < e \<and> now ev \<le> s \<and> checkConflict (bookings st) rid s e None = None \<and>
             \<not> exceedsCapacity (c_participantsCount rq) (capacity room) \<and>
             operatingHoursCheck (tzOffset ev) room s e = Some f \<longrightarrow>
               post_booking ev st u rq = (Inl f, st)))))"
proof -
  have missing: "post_booking ev st u rq = (Inl MissingFields, st)"
    if "c_roomId rq = None \<or> c_activityName rq = [] \<or> c_startTime rq = NoDate \<or> c_endTime rq = NoDate"
    using that by (auto simp: post_booking_def split: option.splits)
  have noroom: "post_booking ev st u rq = (Inl RoomNotFound, st)"
    if "c_roomId rq = Some rid" "c_activityName rq \<noteq> []" "c_startTime rq \<noteq> NoDate"
      "c_endTime rq \<noteq> NoDate" "rooms ev rid = None \<or> rooms ev rid = Some room \<and> \<not> isActive room"
    using that by (auto simp: post_booking_def)
  have baddate: "post_booking ev st u rq = (Inl InvalidDate, st)"
    if "c_roomId rq = Some rid" "c_activityName rq \<noteq> []" "c_startTime rq \<noteq> NoDate"
      "c_endTime rq \<noteq> NoDate" "rooms ev rid = Some room" "isActive room"
      "c_startTime rq = BadDate \<or> c_endTime rq = BadDate"
    using that by (cases "c_startTime rq"; cases "c_endTime rq") (auto simp: post_booking_def)
  have rest: "(e \<le> s \<longrightarrow> post_booking ev st u rq = (Inl EndNotAfterStart, st)) \<and>
            (s < e \<and> s < now ev \<longrightarrow> post_booking ev st u rq = (Inl StartInPast, st)) \<and>
            (s < e \<and> now ev \<le> s \<and> checkConflict (bookings st) rid s e None = Some c \<longrightarrow>
               post_booking ev st u rq =
                 (Inl (Conflict (activityName c) (startTime c) (endTime c)), st)) \<and>
            (s < e \<and> now ev \<le> s \<and> checkConflict (bookings st) rid s e None = None \<and>
             exceedsCapacity (c_participantsCount rq) (capacity room) \<longrightarrow>
               post_booking ev st u rq =
                 (Inl (CapacityExceeded (c_participantsCount rq) (capacity room)), st)) \<and>
            (s < e \<and> now ev \<le> s \<and> checkConflict (bookings st) rid s e None = None \<and>
             \<not> exceedsCapacity (c_participantsCount rq) (capacity room) \<and>
             operatingHoursCheck (tzOffset ev) room s e = Some f \<longrightarrow>
               post_booking ev st u rq = (Inl f, st))"
    if "c_roomId rq = Some rid" "c_activityName rq \<noteq> []" "rooms ev rid = Some room" "isActive room"
      "c_startTime rq = At s" "c_endTime rq = At e"
    using that by (simp add: post_booking_def)
  from missing noroom baddate rest show ?thesis by blast
qed

theorem create_check_order_witness:
  "post_booking env_utc (store [bookingX Approved]) alice
      (request (at_utc 1 3 0) (at_utc 1 5 0) (DecStr 15) None) =
     (Inl (Conflict ''Rapat'' (at_utc 1 2 0) (at_utc 1 4 0)), store [bookingX Approved]) \<and>
   post_booking env_utc (store []) alice
      (request (at_utc 1 3 0) (at_utc 1 5 0) (DecStr 15) None) =
     (Inl (CapacityExceeded (DecStr 15) 10), store [])"
proof -
  let ?rq = "request (at_utc 1 3 0) (at_utc 1 5 0) (DecStr 15) None"
  note T = create_check_order [where rq = ?rq and rid = 1 and room = room10 and ev = env_utc
      and s = "at_utc 1 3 0" and e = "at_utc 1 5 0" and u = alice]
  have h: "c_roomId ?rq = Some 1" "c_activityName ?rq \<noteq> []"
    "c_startTime ?rq \<noteq> NoDate" "c_endTime ?rq \<noteq> NoDate"
    "c_startTime ?rq = At (at_utc 1 3 0)" "c_endTime ?rq = At (at_utc 1 5 0)"
    "rooms env_utc 1 = Some room10" "isActive room10"
    by (simp_all add: scenario_defs)
  have c: "checkConflict (bookings (store [bookingX Approved])) 1 (at_utc 1 3 0) (at_utc 1 5 0) None
            = Some (bookingX Approved)"
    by (simp add: checkConflict_def conflictsWith_def scenario_defs)
  have n: "checkConflict (bookings (store [])) 1 (at_utc 1 3 0) (at_utc 1 5 0) None = None"
    by (simp add: checkConflict_def scenario_defs)
  have t: "at_utc 1 3 0 < at_utc 1 5 0" "now env_utc \<le> at_utc 1 3 0"
    by (simp_all add: scenario_defs)
  have x: "exceedsCapacity (c_participantsCount ?rq) (capacity room10)"
    by (simp add: exceedsCapacity_def js_lt_def scenario_defs)
  have "post_booking env_utc (store [bookingX Approved]) alice ?rq =
     (Inl (Conflict (activityName (bookingX Approved)) (startTime (bookingX Approved))
        (endTime (bookingX Approved))), store [bookingX Approved])"
    using T [where c = "bookingX Approved" and st = "store [bookingX Approved]"] h c t
    by blast
  then have 1: "post_booking env_utc (store [bookingX Approved]) alice ?rq =
     (Inl (Conflict ''Rapat'' (at_utc 1 2 0) (at_utc 1 4 0)), store [bookingX Approved])"
    by (simp add: bookingX_def)
  have "post_booking env_utc (store []) alice ?rq =
     (Inl (CapacityExceeded (c_participantsCount ?rq) (capacity room10)), store [])"
    using T [where st = "store []"] h n t x
    by blast
  then have 2: "post_booking env_utc (store []) alice ?rq =
     (Inl (CapacityExceeded (DecStr 15) 10), store [])"
    by (simp add: request_def room10_def)
  from 1 2 show ?thesis by (rule conjI)
qed

text \<open>
  C4, as stated, fails: a request for 15 participants in a room of capacity 10 that overlaps
  booking X is answered with Conflict, not CapacityExceeded; so is a request from 07:30
  local time, outside the operating hours, that overlaps X.
\<close>

theorem create_conflict_precedes_capacity:
  "fst (route_post env_utc (store [bookingX Approved]) alice
          (request (at_utc 1 3 0) (at_utc 1 5 0) (DecStr 15) None)) =
     Inl (Conflict ''Rapat'' (at_utc 1 2 0) (at_utc 1 4 0)) \<and>
   exceedsCapacity (DecStr 15) (capacity room10) \<and>
   fst (route_post env_utc (store [bookingX Approved]) alice
          (request (at_utc 1 0 30) (at_utc 1 3 0) (DecStr 5) None)) =
     Inl (Conflict ''Rapat'' (at_utc 1 2 0) (at_utc 1 4 0)) \<and>
   operatingHoursCheck (tzOffset env_utc) room10 (at_utc 1 0 30) (at_utc 1 3 0) =
     Some (OutOfOperatingHours ''08:00'' ''17:00'')"
  by (simp add: route_post_def post_booking_def uploadDocument_def checkConflict_def
        conflictsWith_def exceedsCapacity_def Let_def scenario_defs hours_defs)

text \<open>
  The responses of the early returns leave the state as the upload middleware left it:
  the uploaded file is still stored.
\<close>

lemma create_early_return_keeps_state:
  assumes "post_booking ev st u rq = (Inl f, st')"
    and "f \<noteq> ValidationFailed" and "f \<noteq> ServerError"
  shows "st' = st"
  using assms
  by (auto simp: post_booking_def create_catch_def Let_def
      split: option.splits if_splits db_outcome.splits)

lemma failed_create_keeps_any_upload:
  assumes "route_post ev st u rq = (Inl f, st')"
    and "f \<noteq> ValidationFailed" and "f \<noteq> ServerError"
    and "c_file rq = Some p"
  shows "p \<in> set (files st') \<and> bookings st' = bookings st"
  using create_early_return_keeps_state [OF assms(1) [unfolded route_post_def] assms(2,3)] assms(4)
  by (simp add: uploadDocument_def)

text \<open>
  C9 on the code. A create request that uploads a document and fails validation (end before
  start) or collides with booking X is answered by an early return: the uploaded file stays
  in the file store and no booking is written. Only an exception (here a failed database
  write) reaches the catch block, which deletes the file.
\<close>

theorem failed_create_keeps_upload:
  "route_post env_utc (store []) alice
      (request (at_utc 1 5 0) (at_utc 1 3 0) (DecStr 5) (Some ''uploads/documents/new.pdf'')) =
     (Inl EndNotAfterStart,
      \<lparr>bookings = [], files = [''uploads/documents/new.pdf'', ''uploads/documents/x.pdf''], mails = []\<rparr>) \<and>
   route_post env_utc (store [bookingX Approved]) alice
      (request (at_utc 1 3 0) (at_utc 1 5 0) (DecStr 5) (Some ''uploads/documents/new.pdf'')) =
     (Inl (Conflict ''Rapat'' (at_utc 1 2 0) (at_utc 1 4 0)),
      \<lparr>bookings = [bookingX Approved],
        files = [''uploads/documents/new.pdf'', ''uploads/documents/x.pdf''], mails = []\<rparr>) \<and>
   route_post (env_utc\<lparr>dbWrite := DbDown\<rparr>) (store []) alice
      (request (at_utc 1 3 0) (at_utc 1 5 0) (DecStr 5) (Some ''uploads/documents/new.pdf'')) =
     (Inl ServerError, \<lparr>bookings = [], files = [''uploads/documents/x.pdf''], mails = []\<rparr>)"
  by (simp add: route_post_def post_booking_def create_catch_def uploadDocument_def deleteFile_def
      checkConflict_def conflictsWith_def exceedsCapacity_def Let_def scenario_defs hours_defs)

theorem failed_create_keeps_upload_witness:
  "''uploads/documents/new.pdf'' \<in> set (files (snd (route_post env_utc (store []) alice
      (request (at_utc 1 5 0) (at_utc 1 3 0) (DecStr 5) (Some ''uploads/documents/new.pdf'')))))"
  using failed_create_keeps_upload by simp

subsection \<open>Updating a booking\<close>

text \<open>
  An update of a pending booking that gives only a participant count stores the count,
  whatever the capacity of the room.
\<close>

lemma update_count_unchecked:
  assumes "findById (bookings st) i = Some b" and "userId b = user_id u"
    and "status b = Pending" and "\<not> startTime b < now ev"
    and "rooms ev (roomId b) = Some room" and "isActive room" and "dbWrite ev = DbOk"
  shows "put_booking ev st u i (count_update (DecStr k)) =
           (Inr (b\<lparr>participantsCount := int k\<rparr>),
            st\<lparr>bookings := saveBooking (b\<lparr>participantsCount := int k\<rparr>) (bookings st)\<rparr>)"
proof -
  have "applyUpdate (count_update (DecStr k)) (Some (int k)) None b = b\<lparr>participantsCount := int k\<rparr>"
    by (simp add: applyUpdate_def count_update_def)
  with assms show ?thesis
    by (simp add: put_booking_def update_commit_def count_update_def Let_def)
qed

text \<open>
  C5 on the code. The owner of pending booking X, in a room of capacity 10, sets
  participantsCount to 15: the update succeeds and 15 is stored. The same count in a create
  request is refused with CapacityExceeded.
\<close>

theorem update_skips_capacity:
  "route_put env_utc (store [bookingX Pending]) alice 1 (count_update (DecStr 15)) =
     (Inr ((bookingX Pending)\<lparr>participantsCount := 15\<rparr>),
      store [(bookingX Pending)\<lparr>participantsCount := 15\<rparr>]) \<and>
   map_option capacity (rooms env_utc (roomId (bookingX Pending))) = Some 10 \<and>
   fst (route_post env_utc (store []) alice
          (request (at_utc 1 2 0) (at_utc 1 4 0) (DecStr 15) None)) =
     Inl (CapacityExceeded (DecStr 15) 10)"
  by (simp add: route_put_def put_booking_def update_commit_def applyUpdate_def findById_def
      saveBooking_def route_post_def post_booking_def uploadDocument_def checkConflict_def
      exceedsCapacity_def Let_def scenario_defs hours_defs)

theorem update_skips_capacity_witness:
  "\<exists>b st'. route_put env_utc (store [bookingX Pending]) alice 1 (count_update (DecStr 15)) = (Inr b, st') \<and>
      participantsCount b = 15"
  using update_skips_capacity by simp

subsection \<open>Operating hours and the server's time zone\<close>

text \<open>
  The hour the handlers compare is the hour of the instant in Jakarta time, and on one
  Jakarta day the start hour is not after the end hour.
\<close>

lemma jakarta_hour: "(getUTCHours t + 7) mod 24 = ((t + wib) div 3600000) mod 24"
proof -
  have "(t + wib) div 3600000 = t div 3600000 + 7"
    by (simp add: wib_def)
  then show ?thesis
    by (simp add: getUTCHours_def mod_add_left_eq)
qed

lemma same_day_hours_ordered:
  assumes "toDateString wib s = toDateString wib e" and "s \<le> e"
  shows "((s + wib) div 3600000) mod 24 \<le> ((e + wib) div 3600000) mod 24"
proof -
  define x where "x = (s + wib) div 3600000"
  define y where "y = (e + wib) div 3600000"
  have xy: "x \<le> y" using assms(2) by (simp add: x_def y_def zdiv_mono1)
  have "(s + wib) div 86400000 = x div 24" "(e + wib) div 86400000 = y div 24"
    by (simp_all add: x_def y_def div_mult2_eq [symmetric])
  with assms(1) have "x div 24 = y div 24" by (simp add: toDateString_def)
  with xy show ?thesis unfolding x_def [symmetric] y_def [symmetric] by presburger
qed

text \<open>
  When the server process runs in Jakarta time, the check is the one the specification
  describes: it applies exactly to intervals within one Jakarta day, and fails exactly when
  the start hour or the end hour lies outside the room's window.
\<close>

lemma operatingHours_jakarta_server:
  assumes "roomStartHour r = Some lo" and "roomEndHour r = Some hi" and "s < e"
  shows "operatingHoursCheck wib r s e =
     (if toDateString wib s = toDateString wib e \<and>
         \<not> (lo \<le> ((s + wib) div 3600000) mod 24 \<and> ((s + wib) div 3600000) mod 24 \<le> hi \<and>
            lo \<le> ((e + wib) div 3600000) mod 24 \<and> ((e + wib) div 3600000) mod 24 \<le> hi)
      then Some (OutOfOperatingHours (startTimeStr r) (endTimeStr r)) else None)"
proof (cases "toDateString wib s = toDateString wib e")
  case False
  then show ?thesis by (simp add: operatingHoursCheck_def)
next
  case True
  from same_day_hours_ordered [OF True] assms(3)
  have "((s + wib) div 3600000) mod 24 \<le> ((e + wib) div 3600000) mod 24" by simp
  with True assms(1,2) show ?thesis
    by (auto simp: operatingHoursCheck_def Let_def jakarta_hour js_lt_def js_gt_def)
qed

text \<open>
  C8 on the code. The server process runs in UTC. An interval from 07:30 Jakarta time on
  one day to 00:30 on the next (00:30-17:30 UTC of one day) spans two Jakarta dates, yet the
  check runs and refuses it; an interval 06:00-08:00 Jakarta time of a single day
  (23:00-01:00 UTC, two UTC dates) starts before the window opens, yet the check is skipped
  and the booking is created.
\<close>

theorem hours_check_uses_server_zone:
  "fst (route_post env_utc (store []) alice
          (request (at_utc 1 0 30) (at_utc 1 17 30) (DecStr 5) None)) =
     Inl (OutOfOperatingHours ''08:00'' ''17:00'') \<and>
   toDateString wib (at_utc 1 0 30) \<noteq> toDateString wib (at_utc 1 17 30) \<and>
   map_sum id status (fst (route_post env_utc (store []) alice
          (request (at_utc 1 23 0) (at_utc 2 1 0) (DecStr 5) None))) = Inr Pending \<and>
   toDateString wib (at_utc 1 23 0) = toDateString wib (at_utc 2 1 0) \<and>
   ((at_utc 1 23 0 + wib) div 3600000) mod 24 = 6"
  by (simp add: route_post_def post_booking_def uploadDocument_def checkConflict_def
      exceedsCapacity_def Let_def scenario_defs hours_defs)

theorem hours_check_uses_server_zone_witness:
  "fst (route_post env_utc (store []) alice
          (request (at_utc 1 0 30) (at_utc 1 17 30) (DecStr 5) None)) =
     Inl (OutOfOperatingHours ''08:00'' ''17:00'') \<and>
   map_sum id status (fst (route_post env_wib (store []) alice
          (request (at_utc 1 0 30) (at_utc 1 17 30) (DecStr 5) None))) = Inr Pending"
proof -
  have "map_sum id status (fst (route_post env_wib (store []) alice
          (request (at_utc 1 0 30) (at_utc 1 17 30) (DecStr 5) None))) = Inr Pending"
    by (simp add: route_post_def post_booking_def uploadDocument_def checkConflict_def
      exceedsCapacity_def Let_def scenario_defs hours_defs)
  with hours_check_uses_server_zone [THEN conjunct1] show ?thesis by (rule conjI)
qed

subsection \<open>Facts about the booking store\<close>

lemma findById_Some:
  "findById bs i = Some b \<Longrightarrow> b \<in> set bs \<and> bid b = i"
  by (auto simp: findById_def find_Some_iff)

lemma findById_saveBooking:
  "findById bs i = Some b \<Longrightarrow> bid b' = i \<Longrightarrow> findById (saveBooking b' bs) i = Some b'"
  unfolding findById_def saveBooking_def
  by (induction bs) (auto split: if_splits)

lemma findById_delete: "findById (findByIdAndDelete i bs) i = None"
  by (auto simp: findById_def findByIdAndDelete_def find_None_iff)

lemma deleteFile_bookings: "bookings (deleteFile p st) = bookings st"
  by (simp add: deleteFile_def)

lemma deleteFile_files: "p \<notin> set (files (deleteFile p st))"
  by (simp add: deleteFile_def)

subsection \<open>Cancelling a booking\<close>

text \<open>
  C6, as the code has it. A cancel request succeeds only when the caller owns the booking,
  its status is neither cancelled nor rejected and its start is not before the current
  instant; the booking is then cancelled, and a second cancel request fails. Cancelling a
  cancelled or rejected booking of one's own fails with the "already cancelled or rejected"
  response, and every failure leaves the state as it was.
\<close>

theorem cancel_guard:
  "(patch_cancel ev st u i = (Inr r, st') \<longrightarrow>
      (\<exists>b. findById (bookings st) i = Some b \<and> userId b = user_id u \<and>
           status b \<noteq> Cancelled \<and> status b \<noteq> Rejected \<and> \<not> startTime b < now ev \<and>
           status r = Cancelled \<and> findById (bookings st') i = Some r \<and>
           patch_cancel ev' st' u i = (Inl AlreadyCancelledOrRejected, st'))) \<and>
   (findById (bookings st) i = Some b \<and> userId b = user_id u \<and>
    (status b = Cancelled \<or> status b = Rejected) \<longrightarrow>
      patch_cancel ev st u i = (Inl AlreadyCancelledOrRejected, st)) \<and>
   (patch_cancel ev st u i = (Inl f, st') \<longrightarrow> st' = st)"
proof (intro conjI impI)
  assume ok: "patch_cancel ev st u i = (Inr r, st')"
  then obtain b where b: "findById (bookings st) i = Some b"
    by (cases "findById (bookings st) i") (auto simp: patch_cancel_def)
  from ok b have g: "userId b = user_id u" "status b \<noteq> Cancelled" "status b \<noteq> Rejected"
      "\<not> startTime b < now ev"
    and r: "r = updateStatus b Cancelled ''Dibatalkan oleh user'' (user_id u)"
    and st': "st' = st\<lparr>bookings := saveBooking r (bookings st)\<rparr>"
    by (auto simp: patch_cancel_def Let_def split: if_splits db_outcome.splits)
  from b have "bid b = i" by (simp add: findById_Some)
  with r have br: "bid r = i" and sr: "status r = Cancelled" and ur: "userId r = userId b"
    by (simp_all add: updateStatus_def)
  from findById_saveBooking [OF b br] st' have f': "findById (bookings st') i = Some r" by simp
  with sr ur g(1) have "patch_cancel ev' st' u i = (Inl AlreadyCancelledOrRejected, st')"
    by (simp add: patch_cancel_def)
  with b g sr f' show "\<exists>b. findById (bookings st) i = Some b \<and> userId b = user_id u \<and>
           status b \<noteq> Cancelled \<and> status b \<noteq> Rejected \<and> \<not> startTime b < now ev \<and>
           status r = Cancelled \<and> findById (bookings st') i = Some r \<and>
           patch_cancel ev' st' u i = (Inl AlreadyCancelledOrRejected, st')"
    by blast
next
  assume "findById (bookings st) i = Some b \<and> userId b = user_id u \<and>
    (status b = Cancelled \<or> status b = Rejected)"
  then show "patch_cancel ev st u i = (Inl AlreadyCancelledOrRejected, st)"
    by (auto simp: patch_cancel_def)
next
  assume "patch_cancel ev st u i = (Inl f, st')"
  then show "st' = st"
    by (auto simp: patch_cancel_def Let_def split: option.splits if_splits db_outcome.splits)
qed

theorem cancel_guard_witness:
  "(\<exists>r st'. patch_cancel env_utc (store [bookingX Approved]) alice 1 = (Inr r, st') \<and>
       status r = Cancelled \<and>
       patch_cancel env_utc st' alice 1 = (Inl AlreadyCancelledOrRejected, st')) \<and>
   patch_cancel env_utc (store [bookingX Rejected]) alice 1 =
     (Inl AlreadyCancelledOrRejected, store [bookingX Rejected])"
proof -
  obtain r st' where ok: "patch_cancel env_utc (store [bookingX Approved]) alice 1 = (Inr r, st')"
    by (simp add: patch_cancel_def findById_def Let_def scenario_defs)
  from cancel_guard [where ev = env_utc and st = "store [bookingX Approved]" and u = alice
      and i = 1 and r = r and st' = st' and ev' = env_utc, THEN conjunct1] ok
  have 1: "status r = Cancelled \<and>
       patch_cancel env_utc st' alice 1 = (Inl AlreadyCancelledOrRejected, st')"
    by blast
  have "findById (bookings (store [bookingX Rejected])) 1 = Some (bookingX Rejected) \<and>
     userId (bookingX Rejected) = user_id alice \<and>
     (status (bookingX Rejected) = Cancelled \<or> status (bookingX Rejected) = Rejected)"
    by (simp add: findById_def scenario_defs)
  with cancel_guard [where ev = env_utc and st = "store [bookingX Rejected]" and u = alice
      and i = 1 and b = "bookingX Rejected", THEN conjunct2, THEN conjunct1]
  have 2: "patch_cancel env_utc (store [bookingX Rejected]) alice 1 =
     (Inl AlreadyCancelledOrRejected, store [bookingX Rejected])"
    by blast
  from ok 1 2 show ?thesis by blast
qed

text \<open>
  C6, as stated, fails for completed: the owner cancels completed booking X, whose start is
  still ahead, and the request succeeds. It also succeeds for a booking that starts at the
  current instant, which is not before it.
\<close>

theorem cancel_completed_counterexample:
  "fst (patch_cancel env_utc (store [bookingX Completed]) alice 1) =
     Inr ((bookingX Completed)\<lparr>status := Cancelled, adminNote := ''Dibatalkan oleh user'',
           processedBy := Some 7\<rparr>) \<and>
   status (bookingX Completed) = Completed \<and>
   fst (patch_cancel (env_utc\<lparr>now := at_utc 1 2 0\<rparr>) (store [bookingX Approved]) alice 1) =
     Inr ((bookingX Approved)\<lparr>status := Cancelled, adminNote := ''Dibatalkan oleh user'',
           processedBy := Some 7\<rparr>) \<and>
   startTime (bookingX Approved) = now (env_utc\<lparr>now := at_utc 1 2 0\<rparr>)"
  by (simp add: patch_cancel_def findById_def updateStatus_def Let_def scenario_defs)

subsection \<open>Deleting a booking\<close>

text \<open>
  C7, as the code has it. Through the owner's path a booking is deleted only when it is
  cancelled, rejected or completed, and a pending or approved booking of one's own is
  refused with the state unchanged. Through the admin's path an admin can delete a booking
  of any status: whenever the booking exists, the caller is an admin and the database
  accepts the write, the request succeeds, whatever the booking's status; a caller who is
  no admin is refused there. The owner's request for a terminal booking of their own
  succeeds likewise. On both paths a successful deletion removes the record and the
  attached document.
\<close>

theorem delete_guard:
  "(delete_booking ev st u i = (Inr (), st') \<longrightarrow>
      (\<exists>b. findById (bookings st) i = Some b \<and> userId b = user_id u \<and>
           (status b = Cancelled \<or> status b = Rejected \<or> status b = Completed) \<and>
           findById (bookings st') i = None \<and>
           (case documentPath b of None \<Rightarrow> True | Some p \<Rightarrow> p \<notin> set (files st')))) \<and>
   (findById (bookings st) i = Some b \<and> userId b = user_id u \<and>
    (status b = Pending \<or> status b = Approved) \<longrightarrow>
      delete_booking ev st u i = (Inl NotDeletable, st)) \<and>
   (route_admin_delete ev st u i = (Inr (), st') \<longrightarrow>
      (\<exists>b. findById (bookings st) i = Some b \<and> user_role u = Admin \<and>
           findById (bookings st') i = None \<and>
           (case documentPath b of None \<Rightarrow> True | Some p \<Rightarrow> p \<notin> set (files st')))) \<and>
   (findById (bookings st) i = Some b \<and> user_role u = Admin \<and> dbWrite ev = DbOk \<longrightarrow>
      (\<exists>st''. route_admin_delete ev st u i = (Inr (), st'') \<and>
           findById (bookings st'') i = None \<and>
           (case documentPath b of None \<Rightarrow> True | Some p \<Rightarrow> p \<notin> set (files st'')))) \<and>
   (findById (bookings st) i = Some b \<and> userId b = user_id u \<and>
    (status b = Cancelled \<or> status b = Rejected \<or> status b = Completed) \<and>
    dbWrite ev = DbOk \<longrightarrow>
      (\<exists>st''. delete_booking ev st u i = (Inr (), st'') \<and>
           findById (bookings st'') i = None \<and>
           (case documentPath b of None \<Rightarrow> True | Some p \<Rightarrow> p \<notin> set (files st'')))) \<and>
   (user_role u \<noteq> Admin \<longrightarrow> route_admin_delete ev st u i = (Inl Forbidden, st))"
proof (intro conjI impI)
  assume ok: "delete_booking ev st u i = (Inr (), st')"
  then obtain b where b: "findById (bookings st) i = Some b"
    by (cases "findById (bookings st) i") (auto simp: delete_booking_def)
  from ok b show "\<exists>b. findById (bookings st) i = Some b \<and> userId b = user_id u \<and>
           (status b = Cancelled \<or> status b = Rejected \<or> status b = Completed) \<and>
           findById (bookings st') i = None \<and>
           (case documentPath b of None \<Rightarrow> True | Some p \<Rightarrow> p \<notin> set (files st'))"
    by (auto simp: delete_booking_def Let_def findById_delete deleteFile_bookings deleteFile_files
        split: if_splits db_outcome.splits option.splits)
next
  assume "findById (bookings st) i = Some b \<and> userId b = user_id u \<and>
    (status b = Pending \<or> status b = Approved)"
  then show "delete_booking ev st u i = (Inl NotDeletable, st)"
    by (auto simp: delete_booking_def)
next
  assume ok: "route_admin_delete ev st u i = (Inr (), st')"
  then have adm: "user_role u = Admin" and ok': "admin_delete_booking ev st i = (Inr (), st')"
    by (auto simp: route_admin_delete_def authorize_def split: if_splits)
  then obtain b where b: "findById (bookings st) i = Some b"
    by (cases "findById (bookings st) i") (auto simp: admin_delete_booking_def)
  from ok' b adm show "\<exists>b. findById (bookings st) i = Some b \<and> user_role u = Admin \<and>
           findById (bookings st') i = None \<and>
           (case documentPath b of None \<Rightarrow> True | Some p \<Rightarrow> p \<notin> set (files st'))"
    by (auto simp: admin_delete_booking_def Let_def findById_delete deleteFile_bookings deleteFile_files
        split: if_splits db_outcome.splits option.splits)
next
  assume "findById (bookings st) i = Some b \<and> user_role u = Admin \<and> dbWrite ev = DbOk"
  then show "\<exists>st''. route_admin_delete ev st u i = (Inr (), st'') \<and>
           findById (bookings st'') i = None \<and>
           (case documentPath b of None \<Rightarrow> True | Some p \<Rightarrow> p \<notin> set (files st''))"
    by (auto simp: route_admin_delete_def authorize_def admin_delete_booking_def Let_def
        findById_delete deleteFile_bookings deleteFile_files split: option.splits)
next
  assume "findById (bookings st) i = Some b \<and> userId b = user_id u \<and>
    (status b = Cancelled \<or> status b = Rejected \<or> status b = Completed) \<and>
    dbWrite ev = DbOk"
  then show "\<exists>st''. delete_booking ev st u i = (Inr (), st'') \<and>
           findById (bookings st'') i = None \<and>
           (case documentPath b of None \<Rightarrow> True | Some p \<Rightarrow> p \<notin> set (files st''))"
    by (auto simp: delete_booking_def Let_def findById_delete deleteFile_bookings deleteFile_files
        split: option.splits)
next
  assume "user_role u \<noteq> Admin"
  then show "route_admin_delete ev st u i = (Inl Forbidden, st)"
    by (simp add: route_admin_delete_def authorize_def)
qed

theorem delete_guard_witness:
  "delete_booking env_utc (store [bookingX Pending]) alice 1 =
     (Inl NotDeletable, store [bookingX Pending]) \<and>
   (\<exists>st'. delete_booking env_utc (store [bookingX Cancelled]) alice 1 = (Inr (), st') \<and>
      findById (bookings st') 1 = None \<and> ''uploads/documents/x.pdf'' \<notin> set (files st')) \<and>
   (\<exists>st'. route_admin_delete env_utc (store [bookingX Approved]) boss 1 = (Inr (), st') \<and>
      findById (bookings st') 1 = None \<and> ''uploads/documents/x.pdf'' \<notin> set (files st')) \<and>
   route_admin_delete env_utc (store [bookingX Approved]) alice 1 =
     (Inl Forbidden, store [bookingX Approved])"
proof -
  have "findById (bookings (store [bookingX Pending])) 1 = Some (bookingX Pending) \<and>
     userId (bookingX Pending) = user_id alice \<and>
     (status (bookingX Pending) = Pending \<or> status (bookingX Pending) = Approved)"
    by (simp add: findById_def scenario_defs)
  with delete_guard [where ev = env_utc and st = "store [bookingX Pending]" and u = alice
      and i = 1 and b = "bookingX Pending", THEN conjunct2, THEN conjunct1]
  have 1: "delete_booking env_utc (store [bookingX Pending]) alice 1 =
     (Inl NotDeletable, store [bookingX Pending])"
    by blast
  obtain st' where ok: "delete_booking env_utc (store [bookingX Cancelled]) alice 1 = (Inr (), st')"
    by (simp add: delete_booking_def findById_def Let_def scenario_defs)
  have f: "findById (bookings (store [bookingX Cancelled])) 1 = Some (bookingX Cancelled)"
    by (simp add: findById_def scenario_defs)
  from delete_guard [where ev = env_utc and st = "store [bookingX Cancelled]" and u = alice
      and i = 1 and st' = st', THEN conjunct1] ok f
  have 2: "findById (bookings st') 1 = None \<and> ''uploads/documents/x.pdf'' \<notin> set (files st')"
    by (auto simp: bookingX_def)
  have "findById (bookings (store [bookingX Approved])) 1 = Some (bookingX Approved) \<and>
     user_role boss = Admin \<and> dbWrite env_utc = DbOk"
    by (simp add: findById_def scenario_defs)
  with delete_guard [where ev = env_utc and st = "store [bookingX Approved]" and u = boss
      and i = 1 and b = "bookingX Approved",
      THEN conjunct2, THEN conjunct2, THEN conjunct2, THEN conjunct1]
  have "\<exists>st'. route_admin_delete env_utc (store [bookingX Approved]) boss 1 = (Inr (), st') \<and>
      findById (bookings st') 1 = None \<and>
      (case documentPath (bookingX Approved) of None \<Rightarrow> True
       | Some p \<Rightarrow> p \<notin> set (files st'))"
    by blast
  then have 3: "\<exists>st'. route_admin_delete env_utc (store [bookingX Approved]) boss 1 = (Inr (), st') \<and>
      findById (bookings st') 1 = None \<and> ''uploads/documents/x.pdf'' \<notin> set (files st')"
    by (simp add: bookingX_def)
  have "user_role alice \<noteq> Admin" by (simp add: alice_def)
  with delete_guard [where ev = env_utc and st = "store [bookingX Approved]" and u = alice
      and i = 1, THEN conjunct2, THEN conjunct2, THEN conjunct2, THEN conjunct2, THEN conjunct2]
  have 4: "route_admin_delete env_utc (store [bookingX Approved]) alice 1 =
     (Inl Forbidden, store [bookingX Approved])"
    by blast
  from 1 ok 2 3 4 show ?thesis by blast
qed

text \<open>
  C7, as stated, fails on the admin path: an admin deletes pending booking X, record and
  document.
\<close>

theorem admin_deletes_pending:
  "route_admin_delete env_utc (store [bookingX Pending]) boss 1 =
     (Inr (), \<lparr>bookings = [], files = [], mails = []\<rparr>) \<and>
   findById (bookings (store [bookingX Pending])) 1 = Some (bookingX Pending) \<and>
   status (bookingX Pending) = Pending"
  by (simp add: route_admin_delete_def admin_delete_booking_def authorize_def findById_def
      findByIdAndDelete_def deleteFile_def Let_def scenario_defs)

subsection \<open>Status transitions by an admin\<close>




text \<open>
  C3. Approving pending booking Y runs the conflict check again, against every other
  booking of the room that is neither cancelled nor rejected: when some such booking X (an
  approved one, say) overlaps Y, the request fails with a conflict response naming a
  colliding booking, the state is unchanged and Y is still pending.
\<close>

theorem approval_rechecks_conflict:
  assumes "findById (bookings st) i = Some y"
    and "status y = Pending"
    and "s_status rq = Some Approved"
    and "x \<in> set (bookings st)"
    and "bid x \<noteq> bid y"
    and "roomId x = roomId y"
    and "status x \<noteq> Cancelled" and "status x \<noteq> Rejected"
    and "startTime x < endTime y" and "endTime x > startTime y"
  shows "\<exists>c. c \<in> set (bookings st) \<and> bid c \<noteq> bid y \<and> roomId c = roomId y \<and>
             status c \<noteq> Cancelled \<and> status c \<noteq> Rejected \<and>
             startTime c < endTime y \<and> endTime c > startTime y \<and>
             patch_status ev st u i rq =
               (Inl (ApprovalConflict (activityName c) (startTime c) (endTime c)), st) \<and>
             map_option status (findById (bookings st) i) = Some Pending"
proof -
  have "conflictsWith (roomId y) (startTime y) (endTime y) (Some (bid y)) x"
    using assms by (simp add: conflictsWith_def)
  with assms(4) have "checkConflict (bookings st) (roomId y) (startTime y) (endTime y) (Some (bid y)) \<noteq> None"
    using checkConflict_None_iff by blast
  then obtain c where c: "checkConflict (bookings st) (roomId y) (startTime y) (endTime y) (Some (bid y)) = Some c"
    by blast
  from checkConflict_Some_conflicts [OF c]
  have cin: "c \<in> set (bookings st)" and cc: "conflictsWith (roomId y) (startTime y) (endTime y) (Some (bid y)) c"
    by simp_all
  have "patch_status ev st u i rq = (Inl (ApprovalConflict (activityName c) (startTime c) (endTime c)), st)"
    using assms(1-3) c by (simp add: patch_status_def)
  with cin cc assms(1,2) show ?thesis
    by (auto simp: conflictsWith_def)
qed

theorem approval_rechecks_conflict_witness:
  "\<exists>c::booking. patch_status env_utc (store [bookingX Approved, bookingY Pending]) boss 2
          \<lparr>s_status = Some Approved, s_adminNote = []\<rparr> =
            (Inl (ApprovalConflict (activityName c) (startTime c) (endTime c)),
             store [bookingX Approved, bookingY Pending]) \<and>
        map_option status (findById (bookings (store [bookingX Approved, bookingY Pending])) 2) = Some Pending"
proof -
  let ?st = "store [bookingX Approved, bookingY Pending]"
  have f: "findById (bookings ?st) 2 = Some (bookingY Pending)"
    by (simp add: findById_def scenario_defs)
  have "\<exists>c. c \<in> set (bookings ?st) \<and> bid c \<noteq> bid (bookingY Pending) \<and>
          roomId c = roomId (bookingY Pending) \<and> status c \<noteq> Cancelled \<and> status c \<noteq> Rejected \<and>
          startTime c < endTime (bookingY Pending) \<and> endTime c > startTime (bookingY Pending) \<and>
          patch_status env_utc ?st boss 2 \<lparr>s_status = Some Approved, s_adminNote = []\<rparr> =
            (Inl (ApprovalConflict (activityName c) (startTime c) (endTime c)), ?st) \<and>
          map_option status (findById (bookings ?st) 2) = Some Pending"
    by (rule approval_rechecks_conflict [OF f, where x = "bookingX Approved"])
       (simp_all add: scenario_defs)
  then show ?thesis by blast
qed

end
